theory Spec2Isabelle
  imports Main "HOL-Library.Word"
begin

section \<open>The resilient executor (package client)\<close>

text \<open>
  \<^verbatim>\<open>DoWithRetry(ctx, req, maxRetries)\<close> talks to the outside world in three places of
  each loop iteration: the non-blocking \<^verbatim>\<open>select\<close> on \<^verbatim>\<open>ctx.Done()\<close> before the attempt,
  the call \<^verbatim>\<open>client.Do(reqClone)\<close>, and the \<^verbatim>\<open>select\<close> between \<^verbatim>\<open>time.After(backoffDelay)\<close>
  and \<^verbatim>\<open>ctx.Done()\<close>. The model receives what the world answers at attempt \<open>n\<close> as
  a value of \<open>attempt_env\<close>; a \<open>Some e\<close> in a \<open>ctx_done\<close> field says the context was
  found done there, \<open>e\<close> being the text of \<^verbatim>\<open>ctx.Err()\<close>.

  Of an \<^verbatim>\<open>*http.Response\<close> the code reads the status code and the body.
  \<^verbatim>\<open>io.ReadAll(resp.Body)\<close> returns the bytes read and possibly an error: \<open>Body\<close> and
  \<open>BodyErr\<close>.
\<close>

record response =
  StatusCode :: int
  Body :: string
  BodyErr :: "string option"

datatype do_outcome = DoErr string | DoResp response

record attempt_env =
  ctx_done_before :: "string option"
  do_result :: do_outcome
  ctx_done_in_backoff :: "string option"

type_synonym network = "nat \<Rightarrow> attempt_env"

text \<open>The four \<^verbatim>\<open>fmt.Errorf\<close> results of \<^verbatim>\<open>DoWithRetry\<close>, with their arguments.\<close>

datatype retry_error =
    RequestCancelled string
  | CancelledDuringBackoff string
  | FailedAfterRetries int string
  | FailedWithStatus int int

text \<open>
  The value returned is the pair \<open>(ret_resp, ret_err)\<close>. The two other fields are
  observations of the run: \<open>issued\<close> lists the results of the calls of \<^verbatim>\<open>client.Do\<close>
  in the order they were made, \<open>backoffs\<close> the durations handed to \<^verbatim>\<open>time.After\<close>.
\<close>

record retry_result =
  ret_resp :: "response option"
  ret_err :: "retry_error option"
  issued :: "do_outcome list"
  backoffs :: "64 word list"

text \<open>
  \<^verbatim>\<open>time.Duration\<close> is an \<^verbatim>\<open>int64\<close> counting nanoseconds; a duration is read with
  \<open>sint\<close>.
\<close>

definition Millisecond :: "64 word" where
  "Millisecond = 1000000"

definition Second :: "64 word" where
  "Second = 1000000000"

text \<open>
  \<^verbatim>\<open>backoffDelay := time.Duration(1<<uint(attempt)) * 100 * time.Millisecond\<close>,
  then \<^verbatim>\<open>if backoffDelay > 5*time.Second { backoffDelay = 5 * time.Second }\<close>.
  The untyped constant 1 takes the type \<^verbatim>\<open>time.Duration\<close>, so the shift and both
  products are 64-bit and wrap; a shift by 64 or more gives 0, as \<open>push_bit\<close> does.
\<close>

definition backoffDelay :: "nat \<Rightarrow> 64 word" where
  "backoffDelay attempt =
     (let d = push_bit attempt (1 :: 64 word) * 100 * Millisecond
      in if 5 * Second <s d then 5 * Second else d)"

text \<open>The code after the loop, on the variables \<^verbatim>\<open>lastErr\<close> and \<^verbatim>\<open>resp\<close>.\<close>

definition after_loop :: "int \<Rightarrow> string option \<Rightarrow> response option \<Rightarrow> retry_result" where
  "after_loop maxRetries lastErr resp =
     (case lastErr of
        Some e \<Rightarrow> \<lparr>ret_resp = None, ret_err = Some (FailedAfterRetries maxRetries e),
                   issued = [], backoffs = []\<rparr>
      | None \<Rightarrow>
          (case resp of
             Some r \<Rightarrow>
               if 500 \<le> StatusCode r
               then \<lparr>ret_resp = Some r,
                      ret_err = Some (FailedWithStatus maxRetries (StatusCode r)),
                      issued = [], backoffs = []\<rparr>
               else \<lparr>ret_resp = Some r, ret_err = None, issued = [], backoffs = []\<rparr>
           | None \<Rightarrow> \<lparr>ret_resp = None, ret_err = None, issued = [], backoffs = []\<rparr>))"

definition err_of :: "do_outcome \<Rightarrow> string option" where
  "err_of out = (case out of DoErr e \<Rightarrow> Some e | DoResp _ \<Rightarrow> None)"

definition resp_of :: "do_outcome \<Rightarrow> response option" where
  "resp_of out = (case out of DoErr _ \<Rightarrow> None | DoResp r \<Rightarrow> Some r)"

definition did_attempt :: "do_outcome \<Rightarrow> retry_result \<Rightarrow> retry_result" where
  "did_attempt out res = res\<lparr>issued := out # issued res\<rparr>"

definition did_wait :: "64 word \<Rightarrow> retry_result \<Rightarrow> retry_result" where
  "did_wait d res = res\<lparr>backoffs := d # backoffs res\<rparr>"

text \<open>
  The loop \<^verbatim>\<open>for attempt := 0; attempt <= maxRetries; attempt++\<close>. The counter never
  passes \<open>maxRetries\<close> (the body breaks when it reaches it), so it is a natural number
  that does not overflow. \<^verbatim>\<open>resp, lastErr = client.Do(reqClone)\<close> assigns both
  variables in every iteration: \<open>resp_of\<close> and \<open>err_of\<close> are the two components of
  what \<^verbatim>\<open>client.Do\<close> returned.
\<close>

function retry_loop ::
  "network \<Rightarrow> int \<Rightarrow> nat \<Rightarrow> string option \<Rightarrow> response option \<Rightarrow> retry_result" where
  "retry_loop net maxRetries attempt lastErr resp =
     (if int attempt \<le> maxRetries then
        (case ctx_done_before (net attempt) of
           Some e \<Rightarrow> \<lparr>ret_resp = None, ret_err = Some (RequestCancelled e),
                      issued = [], backoffs = []\<rparr>
         | None \<Rightarrow>
            (let out = do_result (net attempt);
                 resp' = resp_of out;
                 lastErr' = err_of out
             in did_attempt out
                 (if lastErr' = None \<and> (case resp' of Some r \<Rightarrow> StatusCode r < 500 | None \<Rightarrow> False)
                  then \<lparr>ret_resp = resp', ret_err = None, issued = [], backoffs = []\<rparr>
                  else if int attempt = maxRetries
                  then after_loop maxRetries lastErr' resp'
                  else did_wait (backoffDelay attempt)
                    (case ctx_done_in_backoff (net attempt) of
                       Some e \<Rightarrow> \<lparr>ret_resp = None, ret_err = Some (CancelledDuringBackoff e),
                                  issued = [], backoffs = []\<rparr>
                     | None \<Rightarrow> retry_loop net maxRetries (Suc attempt) lastErr' resp'))))
      else after_loop maxRetries lastErr resp)"
  by pat_completeness auto
termination
  by (relation "measure (\<lambda>(net, maxRetries, attempt, lastErr, resp). nat (maxRetries + 1 - int attempt))")
     auto

declare retry_loop.simps [simp del]

definition DoWithRetry :: "network \<Rightarrow> int \<Rightarrow> retry_result" where
  "DoWithRetry net maxRetries = retry_loop net maxRetries 0 None None"

text \<open>
  An attempt is retried when \<^verbatim>\<open>lastErr == nil && resp.StatusCode < 500\<close> is false.
\<close>

definition retryable :: "do_outcome \<Rightarrow> bool" where
  "retryable out = (case out of DoErr _ \<Rightarrow> True | DoResp r \<Rightarrow> 500 \<le> StatusCode r)"

section \<open>Formatting integers with \<^verbatim>\<open>%d\<close>\<close>

definition digit_char :: "nat \<Rightarrow> char" where
  "digit_char d = char_of (48 + d)"

fun dec_nat :: "nat \<Rightarrow> string" where
  "dec_nat n = (if n < 10 then [digit_char n] else dec_nat (n div 10) @ [digit_char (n mod 10)])"

declare dec_nat.simps [simp del]

definition fmt_d :: "int \<Rightarrow> string" where
  "fmt_d i = (if i < 0 then CHR ''-'' # dec_nat (nat (- i)) else dec_nat (nat i))"

text \<open>Reading a decimal numeral back; used to show that \<open>fmt_d\<close> loses nothing.\<close>

definition digit_val :: "char \<Rightarrow> nat" where
  "digit_val c = of_char c - 48"

definition val_dec :: "string \<Rightarrow> nat" where
  "val_dec s = foldl (\<lambda>a c. 10 * a + digit_val c) 0 s"

definition parse_d :: "string \<Rightarrow> int" where
  "parse_d s = (case s of [] \<Rightarrow> 0
                | c # t \<Rightarrow> if c = CHR ''-'' then - int (val_dec t) else int (val_dec s))"

section \<open>Vendor wire model and resource model (package models)\<close>

text \<open>
  Of \<^verbatim>\<open>SonyDeviceResponse\<close> and \<^verbatim>\<open>SonyStreamStatus\<close> the fields that the provider
  reads. Go's \<^verbatim>\<open>int\<close> is taken at 64 bits.
\<close>

record SonyStreamStatus =
  CurrentBitrate :: "64 word"
  DroppedFrames :: "64 word"
  UptimeSeconds :: "64 word"
  ViewerCount :: "64 word"

record SonyDeviceResponse =
  DeviceID :: string
  Status :: string
  Message :: string
  StreamStatus :: "SonyStreamStatus option"

text \<open>
  Modelled from the spec: the declarations of \<^verbatim>\<open>ForgeResource\<close>, \<^verbatim>\<open>ResourceSpec\<close> and
  \<^verbatim>\<open>ResourceStatus\<close> are not among the sources; only their uses are. The records below
  have the fields of section 3 of the specification under the names and with the types
  that \<^verbatim>\<open>main.go\<close> and \<^verbatim>\<open>sony_provider.go\<close> use for them. The fields of the
  specification that only \<^verbatim>\<open>buildSonyRequest\<close> reads (the configuration payload and the
  stream settings) are one field \<open>Config\<close>. A \<^verbatim>\<open>time.Time\<close> is either the zero value or a
  reading of the clock in nanoseconds.
\<close>

datatype gotime = ZeroTime | At int

record ResourceStatus =
  Phase :: string
  Message :: string
  VendorID :: string
  HealthStatus :: string
  ErrorCount :: "64 word"
  LastHealthCheck :: gotime
  LastSuccessfulOperation :: gotime
  CurrentBitrate :: "64 word"
  DroppedFrames :: "64 word"
  ConnectionCount :: "64 word"
  Uptime :: "64 word"

record ResourceSpec =
  VendorType :: string
  Config :: "(string \<times> string) list"

record ForgeResource =
  ID :: string
  Name :: string
  Type :: string
  Namespace :: string
  Spec :: ResourceSpec
  Status :: ResourceStatus
  CreatedAt :: gotime
  UpdatedAt :: gotime

text \<open>The value of \<^verbatim>\<open>&models.ResourceStatus{}\<close>: every field zero.\<close>

definition zero_status :: ResourceStatus where
  "zero_status =
     \<lparr>Phase = [], Message = [], VendorID = [], HealthStatus = [], ErrorCount = 0,
      LastHealthCheck = ZeroTime, LastSuccessfulOperation = ZeroTime, CurrentBitrate = 0,
      DroppedFrames = 0, ConnectionCount = 0, Uptime = 0\<rparr>"

section \<open>The Sony provider (package provider)\<close>

record SonyProvider =
  BaseURL :: string
  APIKey :: string

definition NewSonyProvider :: "string \<Rightarrow> string \<Rightarrow> SonyProvider" where
  "NewSonyProvider baseURL apiKey = \<lparr>BaseURL = baseURL, APIKey = apiKey\<rparr>"

text \<open>
  What one request meets outside the repository's code. \<open>now_id\<close> is
  \<^verbatim>\<open>time.Now().UnixNano()\<close> in \<^verbatim>\<open>generateResourceID\<close>; \<open>now_created\<close> and \<open>now_updated\<close>
  are the readings of \<^verbatim>\<open>time.Now()\<close> in the handlers, \<open>now_health\<close> and \<open>now_operation\<close>
  the two in \<^verbatim>\<open>buildResourceStatus\<close>. \<open>marshal\<close> is
  \<^verbatim>\<open>json.Marshal(s.buildSonyRequest(resource))\<close>, \<open>new_request\<close> is
  \<^verbatim>\<open>http.NewRequestWithContext\<close> on a method and a URL (\<open>Some e\<close> is its error),
  \<open>unmarshal\<close> is \<^verbatim>\<open>json.Unmarshal\<close> into a \<^verbatim>\<open>SonyDeviceResponse\<close>, and \<open>net\<close> is the
  network that \<^verbatim>\<open>DoWithRetry\<close> sees. In the sums \<open>Inl\<close> carries the text of the error.
\<close>

record world =
  now_id :: int
  now_created :: gotime
  now_updated :: gotime
  now_health :: gotime
  now_operation :: gotime
  marshal :: "ForgeResource \<Rightarrow> string + string"
  new_request :: "string \<Rightarrow> string \<Rightarrow> string option"
  unmarshal :: "string \<Rightarrow> string + SonyDeviceResponse"
  net :: network

text \<open>
  The errors the provider returns, one constructor for each \<^verbatim>\<open>fmt.Errorf\<close>.
  \<open>NilDereference\<close> stands for the run-time panic of \<^verbatim>\<open>resp.Body\<close> on a nil response
  with a nil error; \<open>DoWithRetry_3_response\<close> below shows that no call with three
  retries reaches it.
\<close>

datatype provider_error =
    MarshalFailed string
  | NewRequestFailed string
  | ExecuteFailed retry_error
  | ReadBodyFailed string
  | BadStatus int string
  | ParseFailed string
  | NoVendorID
  | NilDereference

fun retry_error_text :: "retry_error \<Rightarrow> string" where
  "retry_error_text (RequestCancelled e) = ''request cancelled: '' @ e"
| "retry_error_text (CancelledDuringBackoff e) = ''request cancelled during backoff: '' @ e"
| "retry_error_text (FailedAfterRetries n e) =
     ''request failed after '' @ fmt_d n @ '' retries: '' @ e"
| "retry_error_text (FailedWithStatus n c) =
     ''request failed after '' @ fmt_d n @ '' retries with status '' @ fmt_d c"

fun error_text :: "provider_error \<Rightarrow> string" where
  "error_text (MarshalFailed e) = ''failed to marshal Sony request: '' @ e"
| "error_text (NewRequestFailed e) = ''failed to create HTTP request: '' @ e"
| "error_text (ExecuteFailed e) = ''failed to execute Sony API request: '' @ retry_error_text e"
| "error_text (ReadBodyFailed e) = ''failed to read Sony API response: '' @ e"
| "error_text (BadStatus c b) = ''Sony API returned status '' @ fmt_d c @ '': '' @ b"
| "error_text (ParseFailed e) = ''failed to parse Sony API response: '' @ e"
| "error_text NoVendorID = ''cannot update resource without vendor ID''"
| "error_text NilDereference =
     ''runtime error: invalid memory address or nil pointer dereference''"

text \<open>\<^verbatim>\<open>buildResourceStatus\<close>, with the two readings of the clock as arguments.\<close>

definition phase_of :: "string \<Rightarrow> ResourceStatus \<Rightarrow> ResourceStatus" where
  "phase_of st status =
     (if st = ''active'' then status\<lparr>Phase := ''Running'', HealthStatus := ''healthy''\<rparr>
      else if st = ''inactive'' then status\<lparr>Phase := ''Pending'', HealthStatus := ''unknown''\<rparr>
      else if st = ''provisioning''
      then status\<lparr>Phase := ''Provisioning'', HealthStatus := ''unknown''\<rparr>
      else if st = ''error''
      then status\<lparr>Phase := ''Failed'', HealthStatus := ''unhealthy'',
                  ErrorCount := ErrorCount status + 1\<rparr>
      else if st = ''maintenance''
      then status\<lparr>Phase := ''Updating'', HealthStatus := ''degraded''\<rparr>
      else status\<lparr>Phase := ''Unknown'', HealthStatus := ''unknown''\<rparr>)"

definition stream_metrics :: "SonyStreamStatus option \<Rightarrow> ResourceStatus \<Rightarrow> ResourceStatus" where
  "stream_metrics ss status =
     (case ss of
        None \<Rightarrow> status
      | Some m \<Rightarrow>
          (let status1 = status\<lparr>CurrentBitrate := SonyStreamStatus.CurrentBitrate m * 1000,
                                 DroppedFrames := SonyStreamStatus.DroppedFrames m,
                                 ConnectionCount := ViewerCount m\<rparr>
           in if 0 <s UptimeSeconds m
              then status1\<lparr>Uptime := UptimeSeconds m * Second\<rparr> else status1))"

definition buildResourceStatus :: "SonyDeviceResponse \<Rightarrow> gotime \<Rightarrow> gotime \<Rightarrow> ResourceStatus" where
  "buildResourceStatus response t1 t2 =
     stream_metrics (StreamStatus response)
       ((phase_of (SonyDeviceResponse.Status response)
          (zero_status\<lparr>VendorID := DeviceID response,
                        Message := SonyDeviceResponse.Message response\<rparr>))
        \<lparr>LastHealthCheck := t1, LastSuccessfulOperation := t2\<rparr>)"

text \<open>
  The provider's operations return their Go result and, as an observation, the calls of
  \<^verbatim>\<open>client.Do\<close> that were made. Every operation calls \<^verbatim>\<open>client.DoWithRetry(ctx, req, 3)\<close>.
\<close>

type_synonym 'a provider_result = "(provider_error + 'a) \<times> do_outcome list"

text \<open>
  The last two steps of \<^verbatim>\<open>Create\<close>, \<^verbatim>\<open>Read\<close> and \<^verbatim>\<open>Update\<close>: \<^verbatim>\<open>json.Unmarshal\<close> of the
  body into a \<^verbatim>\<open>SonyDeviceResponse\<close>, then \<^verbatim>\<open>buildResourceStatus\<close>.
\<close>

definition parse_status :: "world \<Rightarrow> response \<Rightarrow> provider_error + ResourceStatus" where
  "parse_status w r =
     (case unmarshal w (Body r) of
        Inl e \<Rightarrow> Inl (ParseFailed e)
      | Inr sonyResponse \<Rightarrow>
          Inr (buildResourceStatus sonyResponse (now_health w) (now_operation w)))"

definition Create :: "SonyProvider \<Rightarrow> world \<Rightarrow> ForgeResource \<Rightarrow> ResourceStatus provider_result" where
  "Create s w resource =
     (case marshal w resource of
        Inl e \<Rightarrow> (Inl (MarshalFailed e), [])
      | Inr requestBody \<Rightarrow>
          (case new_request w ''POST'' (BaseURL s @ ''/devices'') of
             Some e \<Rightarrow> (Inl (NewRequestFailed e), [])
           | None \<Rightarrow>
               (let res = DoWithRetry (net w) 3 in
                (case ret_err res of
                   Some e \<Rightarrow> Inl (ExecuteFailed e)
                 | None \<Rightarrow>
                     (case ret_resp res of
                        None \<Rightarrow> Inl NilDereference
                      | Some r \<Rightarrow>
                          (case BodyErr r of
                             Some e \<Rightarrow> Inl (ReadBodyFailed e)
                           | None \<Rightarrow>
                               if StatusCode r \<noteq> 201 \<and> StatusCode r \<noteq> 200
                               then Inl (BadStatus (StatusCode r) (Body r))
                               else parse_status w r)),
                 issued res))))"

definition Read :: "SonyProvider \<Rightarrow> world \<Rightarrow> string \<Rightarrow> ResourceStatus provider_result" where
  "Read s w vendorID =
     (case new_request w ''GET'' (BaseURL s @ ''/devices/'' @ vendorID) of
        Some e \<Rightarrow> (Inl (NewRequestFailed e), [])
      | None \<Rightarrow>
          (let res = DoWithRetry (net w) 3 in
           (case ret_err res of
              Some e \<Rightarrow> Inl (ExecuteFailed e)
            | None \<Rightarrow>
                (case ret_resp res of
                   None \<Rightarrow> Inl NilDereference
                 | Some r \<Rightarrow>
                     (case BodyErr r of
                        Some e \<Rightarrow> Inl (ReadBodyFailed e)
                      | None \<Rightarrow>
                          if StatusCode r = 404
                          then Inr (zero_status\<lparr>Phase := ''Failed'',
                                     Message := ''Device not found in Sony system'',
                                     VendorID := vendorID, HealthStatus := ''unhealthy''\<rparr>)
                          else if StatusCode r \<noteq> 200
                          then Inl (BadStatus (StatusCode r) (Body r))
                          else parse_status w r)),
            issued res)))"

definition Update :: "SonyProvider \<Rightarrow> world \<Rightarrow> ForgeResource \<Rightarrow> ResourceStatus provider_result" where
  "Update s w resource =
     (if VendorID (Status resource) = [] then (Inl NoVendorID, [])
      else
        (case marshal w resource of
           Inl e \<Rightarrow> (Inl (MarshalFailed e), [])
         | Inr requestBody \<Rightarrow>
             (case new_request w ''PATCH''
                     (BaseURL s @ ''/devices/'' @ VendorID (Status resource)) of
                Some e \<Rightarrow> (Inl (NewRequestFailed e), [])
              | None \<Rightarrow>
                  (let res = DoWithRetry (net w) 3 in
                   (case ret_err res of
                      Some e \<Rightarrow> Inl (ExecuteFailed e)
                    | None \<Rightarrow>
                        (case ret_resp res of
                           None \<Rightarrow> Inl NilDereference
                         | Some r \<Rightarrow>
                             (case BodyErr r of
                                Some e \<Rightarrow> Inl (ReadBodyFailed e)
                              | None \<Rightarrow>
                                  if StatusCode r \<noteq> 200
                                  then Inl (BadStatus (StatusCode r) (Body r))
                                  else parse_status w r)),
                    issued res)))))"

text \<open>
  \<^verbatim>\<open>Delete\<close> returns an \<^verbatim>\<open>error\<close> only: \<open>None\<close> is nil. In the default branch the error
  of \<^verbatim>\<open>io.ReadAll\<close> is dropped and the bytes read are kept.
\<close>

definition Delete :: "SonyProvider \<Rightarrow> world \<Rightarrow> string \<Rightarrow> provider_error option \<times> do_outcome list" where
  "Delete s w vendorID =
     (case new_request w ''DELETE'' (BaseURL s @ ''/devices/'' @ vendorID) of
        Some e \<Rightarrow> (Some (NewRequestFailed e), [])
      | None \<Rightarrow>
          (let res = DoWithRetry (net w) 3 in
           (case ret_err res of
              Some e \<Rightarrow> Some (ExecuteFailed e)
            | None \<Rightarrow>
                (case ret_resp res of
                   None \<Rightarrow> Some NilDereference
                 | Some r \<Rightarrow>
                     if StatusCode r = 204 \<or> StatusCode r = 200 \<or> StatusCode r = 404
                     then None
                     else Some (BadStatus (StatusCode r) (Body r))),
            issued res)))"

section \<open>The controller (cmd, the REST API server)\<close>

text \<open>
  \<^verbatim>\<open>Controller\<close>: the provider table built at start-up and the in-memory store. The only
  implementation of \<^verbatim>\<open>VendorProvider\<close> is \<^verbatim>\<open>SonyProvider\<close>. The handlers are modelled one
  request at a time, each running to its end before the next: the mutex is not modelled.
\<close>

record Controller =
  Providers :: "string \<rightharpoonup> SonyProvider"
  ResourceDB :: "string \<rightharpoonup> ForgeResource"

text \<open>
  \<^verbatim>\<open>NewController\<close>; the arguments are the values of \<^verbatim>\<open>os.Getenv("SONY_API_URL")\<close> and
  \<^verbatim>\<open>os.Getenv("SONY_API_KEY")\<close>.
\<close>

definition NewController :: "string \<Rightarrow> string \<Rightarrow> Controller" where
  "NewController sonyBaseURL sonyAPIKey =
     \<lparr>Providers =
        [''sony'' \<mapsto>
           NewSonyProvider (if sonyBaseURL = [] then ''http://localhost:9000'' else sonyBaseURL)
                           (if sonyAPIKey = [] then ''test-api-key'' else sonyAPIKey)],
      ResourceDB = Map.empty\<rparr>"

definition generateResourceID :: "int \<Rightarrow> string" where
  "generateResourceID unixNano = ''res-'' @ fmt_d unixNano"

text \<open>
  What a handler leaves behind: the controller after the request, the status code and
  the body written to the \<^verbatim>\<open>http.ResponseWriter\<close>, and two observations, the provider
  operations invoked and the calls of \<^verbatim>\<open>client.Do\<close> made by them.
\<close>

datatype reply = JSONError string | JSONResource ForgeResource | NoBody

datatype provider_call = CallCreate ForgeResource | CallRead string | CallDelete string

record handled =
  ctrl :: Controller
  status_code :: int
  reply_body :: reply
  provider_calls :: "provider_call list"
  http_calls :: "do_outcome list"

definition refuse :: "Controller \<Rightarrow> int \<Rightarrow> string \<Rightarrow> handled" where
  "refuse c n msg =
     \<lparr>ctrl = c, status_code = n, reply_body = JSONError msg, provider_calls = [],
      http_calls = []\<rparr>"

text \<open>
  \<^verbatim>\<open>HandleCreateResource\<close>; \<open>decoded\<close> is the result of decoding the request body into a
  \<^verbatim>\<open>ForgeResource\<close>.
\<close>

definition HandleCreateResource :: "world \<Rightarrow> Controller \<Rightarrow> string + ForgeResource \<Rightarrow> handled" where
  "HandleCreateResource w c decoded =
     (case decoded of
        Inl e \<Rightarrow> refuse c 400 (''invalid JSON: '' @ e)
      | Inr resource0 \<Rightarrow>
          if Name resource0 = [] then refuse c 400 ''name is required''
          else if Type resource0 = [] then refuse c 400 ''type is required''
          else if VendorType (Spec resource0) = [] then refuse c 400 ''vendor_type is required''
          else
            (let resource = resource0
                   \<lparr>ID := generateResourceID (now_id w),
                    CreatedAt := now_created w,
                    UpdatedAt := now_updated w,
                    Status := (Status resource0)
                      \<lparr>Phase := ''Pending'', Message := ''Resource creation initiated''\<rparr>\<rparr>
             in case Providers c (VendorType (Spec resource)) of
                  None \<Rightarrow> refuse c 400 (''unsupported vendor: '' @ VendorType (Spec resource))
                | Some selectedProvider \<Rightarrow>
                    (let (result, http) = Create selectedProvider w resource;
                         resource' =
                           (case result of
                              Inl e \<Rightarrow> resource
                                \<lparr>Status := (Status resource)
                                   \<lparr>Phase := ''Failed'',
                                    Message := ''Vendor API error: '' @ error_text e\<rparr>\<rparr>
                            | Inr status \<Rightarrow> resource\<lparr>Status := status\<rparr>)
                     in \<lparr>ctrl = c\<lparr>ResourceDB := (ResourceDB c)(ID resource \<mapsto> resource')\<rparr>,
                         status_code = 201,
                         reply_body = JSONResource resource',
                         provider_calls = [CallCreate resource],
                         http_calls = http\<rparr>)))"

text \<open>
  \<^verbatim>\<open>HandleGetResource\<close>. No status is written before the body, so the response is 200.
\<close>

definition HandleGetResource :: "world \<Rightarrow> Controller \<Rightarrow> string \<Rightarrow> handled" where
  "HandleGetResource w c resourceID =
     (if resourceID = [] then refuse c 400 ''resource ID is required''
      else case ResourceDB c resourceID of
        None \<Rightarrow> refuse c 404 ''resource not found''
      | Some resource \<Rightarrow>
          (case Providers c (VendorType (Spec resource)) of
             None \<Rightarrow> refuse c 500 ''provider not configured''
           | Some selectedProvider \<Rightarrow>
               if VendorID (Status resource) \<noteq> [] then
                 (let (result, http) = Read selectedProvider w (VendorID (Status resource))
                  in case result of
                       Inl e \<Rightarrow>
                         \<lparr>ctrl = c, status_code = 200, reply_body = JSONResource resource,
                          provider_calls = [CallRead (VendorID (Status resource))],
                          http_calls = http\<rparr>
                     | Inr status \<Rightarrow>
                         (let resource' = resource\<lparr>Status := status, UpdatedAt := now_updated w\<rparr>
                          in \<lparr>ctrl = c\<lparr>ResourceDB := (ResourceDB c)(resourceID \<mapsto> resource')\<rparr>,
                              status_code = 200, reply_body = JSONResource resource',
                              provider_calls = [CallRead (VendorID (Status resource))],
                              http_calls = http\<rparr>))
               else
                 \<lparr>ctrl = c, status_code = 200, reply_body = JSONResource resource,
                  provider_calls = [], http_calls = []\<rparr>))"

text \<open>\<^verbatim>\<open>HandleDeleteResource\<close>.\<close>

definition HandleDeleteResource :: "world \<Rightarrow> Controller \<Rightarrow> string \<Rightarrow> handled" where
  "HandleDeleteResource w c resourceID =
     (if resourceID = [] then refuse c 400 ''resource ID is required''
      else case ResourceDB c resourceID of
        None \<Rightarrow> refuse c 404 ''resource not found''
      | Some resource \<Rightarrow>
          (case Providers c (VendorType (Spec resource)) of
             None \<Rightarrow> refuse c 500 ''provider not configured''
           | Some selectedProvider \<Rightarrow>
               if VendorID (Status resource) \<noteq> [] then
                 (let (failure, http) = Delete selectedProvider w (VendorID (Status resource))
                  in case failure of
                       Some e \<Rightarrow>
                         \<lparr>ctrl = c, status_code = 500,
                          reply_body = JSONError (''failed to delete from vendor: '' @ error_text e),
                          provider_calls = [CallDelete (VendorID (Status resource))],
                          http_calls = http\<rparr>
                     | None \<Rightarrow>
                         \<lparr>ctrl = c\<lparr>ResourceDB := (ResourceDB c)(resourceID := None)\<rparr>,
                          status_code = 204, reply_body = NoBody,
                          provider_calls = [CallDelete (VendorID (Status resource))],
                          http_calls = http\<rparr>)
               else
                 \<lparr>ctrl = c\<lparr>ResourceDB := (ResourceDB c)(resourceID := None)\<rparr>,
                  status_code = 204, reply_body = NoBody,
                  provider_calls = [], http_calls = []\<rparr>))"

text \<open>The id in the body of a reply that carries a resource.\<close>

definition replied_id :: "handled \<Rightarrow> string option" where
  "replied_id h = (case reply_body h of JSONResource r \<Rightarrow> Some (ID r) | _ \<Rightarrow> None)"

text \<open>
  The controllers the server can be in: the one built at start-up, and any reached from
  it by handling requests one after another. \<^verbatim>\<open>HandleHealthCheck\<close> does not touch the
  controller and adds nothing.
\<close>

inductive reachable :: "Controller \<Rightarrow> bool" where
  start: "reachable (NewController url key)"
| created: "reachable c \<Longrightarrow> reachable (ctrl (HandleCreateResource w c decoded))"
| got: "reachable c \<Longrightarrow> reachable (ctrl (HandleGetResource w c resourceID))"
| deleted: "reachable c \<Longrightarrow> reachable (ctrl (HandleDeleteResource w c resourceID))"

text \<open>
  What holds of every stored record: its key is not empty, and its vendor type has a
  provider.
\<close>

definition store_ok :: "Controller \<Rightarrow> bool" where
  "store_ok c \<longleftrightarrow>
     (\<forall>k r. ResourceDB c k = Some r \<longrightarrow> k \<noteq> [] \<and> Providers c (VendorType (Spec r)) \<noteq> None)"

section \<open>Worlds and requests of the examples\<close>

definition plain :: "int \<Rightarrow> response" where
  "plain c = \<lparr>StatusCode = c, Body = [], BodyErr = None\<rparr>"

text \<open>
  A network on which the context is never done: attempt \<open>n\<close> gets the \<open>n\<close>-th element
  of \<open>outs\<close>, and \<open>rest\<close> once the list is used up.
\<close>

definition answering :: "do_outcome list \<Rightarrow> do_outcome \<Rightarrow> network" where
  "answering outs rest n =
     \<lparr>ctx_done_before = None,
      do_result = (if n < length outs then outs ! n else rest),
      ctx_done_in_backoff = None\<rparr>"

definition device_active :: SonyDeviceResponse where
  "device_active =
     \<lparr>DeviceID = ''dev-1'', Status = ''active'', Message = ''Device provisioned successfully'',
      StreamStatus = None\<rparr>"

text \<open>
  A world in which the clock reads \<open>t\<close>, requests can always be built and every body
  parses as \<open>device_active\<close>.
\<close>

definition world_at :: "int \<Rightarrow> network \<Rightarrow> world" where
  "world_at t nw =
     \<lparr>now_id = t, now_created = At t, now_updated = At t, now_health = At t,
      now_operation = At t,
      marshal = (\<lambda>_. Inr ''{}''),
      new_request = (\<lambda>_ _. None),
      unmarshal = (\<lambda>_. Inr device_active),
      net = nw\<rparr>"

definition camera :: "string \<Rightarrow> ForgeResource" where
  "camera n =
     \<lparr>ID = [], Name = n, Type = ''camera'', Namespace = [],
      Spec = \<lparr>VendorType = ''sony'', Config = [(''resolution'', ''4K'')]\<rparr>,
      Status = zero_status, CreatedAt = ZeroTime, UpdatedAt = ZeroTime\<rparr>"


text \<open>
  The controller as \<^verbatim>\<open>NewController\<close> builds it with both environment variables unset,
  and the provider it holds.
\<close>

definition controller0 :: Controller where
  "controller0 = NewController [] []"

definition sony0 :: SonyProvider where
  "sony0 = NewSonyProvider ''http://localhost:9000'' ''test-api-key''"

text \<open>
  A camera request as \<^verbatim>\<open>HandleCreateResource\<close> hands it to the provider at clock reading
  \<open>t\<close>, and as it is stored once the vendor has answered with \<open>device_active\<close>.
\<close>

definition pending_camera :: "string \<Rightarrow> int \<Rightarrow> ForgeResource" where
  "pending_camera n t =
     (camera n)\<lparr>ID := generateResourceID t, CreatedAt := At t, UpdatedAt := At t,
                Status := zero_status\<lparr>Phase := ''Pending'',
                   Message := ''Resource creation initiated''\<rparr>\<rparr>"

definition stored_camera :: "string \<Rightarrow> int \<Rightarrow> ForgeResource" where
  "stored_camera n t =
     (camera n)\<lparr>ID := generateResourceID t, CreatedAt := At t, UpdatedAt := At t,
                Status := buildResourceStatus device_active (At t) (At t)\<rparr>"

text \<open>
  Requests handled one after the other: a create that the vendor answers with 201, then
  a second create at the same reading of the clock, or at the next nanosecond; and a
  create that the vendor refuses with 400.
\<close>

definition first_create :: handled where
  "first_create =
     HandleCreateResource (world_at 1700000000000000000 (answering [] (DoResp (plain 201))))
       controller0 (Inr (camera ''cam-1''))"

definition second_create :: handled where
  "second_create =
     HandleCreateResource (world_at 1700000000000000000 (answering [] (DoResp (plain 201))))
       (ctrl first_create) (Inr (camera ''cam-2''))"

definition later_create :: handled where
  "later_create =
     HandleCreateResource (world_at 1700000000000000001 (answering [] (DoResp (plain 201))))
       (ctrl first_create) (Inr (camera ''cam-2''))"

definition failed_create :: handled where
  "failed_create =
     HandleCreateResource (world_at 1700000000000000000 (answering [] (DoResp (plain 400))))
       controller0 (Inr (camera ''cam-1''))"

section \<open>The retry loop, case by case\<close>

lemma after_loop_obs [simp]:
  "issued (after_loop m le r) = []" "backoffs (after_loop m le r) = []"
  by (auto simp: after_loop_def split: option.splits)

lemma did_fields [simp]:
  "issued (did_attempt out res) = out # issued res"
  "issued (did_wait d res) = issued res"
  "backoffs (did_attempt out res) = backoffs res"
  "backoffs (did_wait d res) = d # backoffs res"
  "ret_resp (did_attempt out res) = ret_resp res"
  "ret_resp (did_wait d res) = ret_resp res"
  "ret_err (did_attempt out res) = ret_err res"
  "ret_err (did_wait d res) = ret_err res"
  by (simp_all add: did_attempt_def did_wait_def)

lemma retry_loop_exit:
  "\<not> int a \<le> m \<Longrightarrow> retry_loop nw m a le r = after_loop m le r"
  by (subst retry_loop.simps) simp

lemma retry_loop_cancelled:
  "int a \<le> m \<Longrightarrow> ctx_done_before (nw a) = Some e \<Longrightarrow>
   retry_loop nw m a le r =
     \<lparr>ret_resp = None, ret_err = Some (RequestCancelled e), issued = [], backoffs = []\<rparr>"
  by (subst retry_loop.simps) simp

lemma retry_loop_return:
  "int a \<le> m \<Longrightarrow> ctx_done_before (nw a) = None \<Longrightarrow> do_result (nw a) = DoResp x \<Longrightarrow>
   StatusCode x < 500 \<Longrightarrow>
   retry_loop nw m a le r =
     \<lparr>ret_resp = Some x, ret_err = None, issued = [DoResp x], backoffs = []\<rparr>"
  by (subst retry_loop.simps) (simp add: resp_of_def err_of_def did_attempt_def)

lemma retry_loop_last:
  "int a = m \<Longrightarrow> ctx_done_before (nw a) = None \<Longrightarrow> retryable (do_result (nw a)) \<Longrightarrow>
   retry_loop nw m a le r =
     did_attempt (do_result (nw a))
       (after_loop m (err_of (do_result (nw a))) (resp_of (do_result (nw a))))"
  by (subst retry_loop.simps)
     (auto simp: resp_of_def err_of_def retryable_def Let_def split: do_outcome.splits)

lemma retry_loop_backoff_cancelled:
  "int a < m \<Longrightarrow> ctx_done_before (nw a) = None \<Longrightarrow> retryable (do_result (nw a)) \<Longrightarrow>
   ctx_done_in_backoff (nw a) = Some e \<Longrightarrow>
   retry_loop nw m a le r =
     \<lparr>ret_resp = None, ret_err = Some (CancelledDuringBackoff e),
      issued = [do_result (nw a)], backoffs = [backoffDelay a]\<rparr>"
  by (subst retry_loop.simps)
     (auto simp: resp_of_def err_of_def retryable_def Let_def did_attempt_def did_wait_def
           split: do_outcome.splits)

lemma retry_loop_again:
  "int a < m \<Longrightarrow> ctx_done_before (nw a) = None \<Longrightarrow> retryable (do_result (nw a)) \<Longrightarrow>
   ctx_done_in_backoff (nw a) = None \<Longrightarrow>
   retry_loop nw m a le r =
     did_attempt (do_result (nw a)) (did_wait (backoffDelay a)
       (retry_loop nw m (Suc a) (err_of (do_result (nw a))) (resp_of (do_result (nw a)))))"
  by (subst retry_loop.simps)
     (auto simp: resp_of_def err_of_def retryable_def Let_def split: do_outcome.splits)

lemmas retry_loop_eqs =
  retry_loop_exit retry_loop_cancelled retry_loop_return retry_loop_last
  retry_loop_backoff_cancelled retry_loop_again

text \<open>The six ways through one iteration.\<close>

lemma retry_loop_cases:
  obtains (exit) "\<not> int a \<le> m"
  | (cancelled) e where "int a \<le> m" "ctx_done_before (nw a) = Some e"
  | (return) x where "int a \<le> m" "ctx_done_before (nw a) = None"
      "do_result (nw a) = DoResp x" "StatusCode x < 500"
  | (last) "int a = m" "ctx_done_before (nw a) = None" "retryable (do_result (nw a))"
  | (backoff_cancelled) e where "int a < m" "ctx_done_before (nw a) = None"
      "retryable (do_result (nw a))" "ctx_done_in_backoff (nw a) = Some e"
  | (again) "int a < m" "ctx_done_before (nw a) = None"
      "retryable (do_result (nw a))" "ctx_done_in_backoff (nw a) = None"
proof (cases "int a \<le> m")
  case False
  then show ?thesis by (rule exit)
next
  case le: True
  show ?thesis
  proof (cases "ctx_done_before (nw a)")
    case (Some e)
    with le show ?thesis by (rule cancelled)
  next
    case None
    show ?thesis
    proof (cases "retryable (do_result (nw a))")
      case False
      then obtain x where "do_result (nw a) = DoResp x" "StatusCode x < 500"
        by (auto simp: retryable_def split: do_outcome.splits)
      with le None show ?thesis by (rule return)
    next
      case rt: True
      show ?thesis
      proof (cases "int a = m")
        case True
        then show ?thesis using None rt by (rule last)
      next
        case False
        with le have lt: "int a < m" by simp
        show ?thesis
        proof (cases "ctx_done_in_backoff (nw a)")
          case (Some e)
          with lt None rt show ?thesis by (rule backoff_cancelled)
        next
          case nb: None
          with lt None rt show ?thesis by (rule again)
        qed
      qed
    qed
  qed
qed

text \<open>Induction along the loop: the distance of the counter to \<open>m + 1\<close> shrinks.\<close>

lemma retry_loop_induct [case_names exit cancelled return last backoff_cancelled again]:
  assumes "\<And>a le r. \<not> int a \<le> m \<Longrightarrow> P a le r"
    and "\<And>a le r e. int a \<le> m \<Longrightarrow> ctx_done_before (nw a) = Some e \<Longrightarrow> P a le r"
    and "\<And>a le r x. int a \<le> m \<Longrightarrow> ctx_done_before (nw a) = None \<Longrightarrow>
           do_result (nw a) = DoResp x \<Longrightarrow> StatusCode x < 500 \<Longrightarrow> P a le r"
    and "\<And>a le r. int a = m \<Longrightarrow> ctx_done_before (nw a) = None \<Longrightarrow>
           retryable (do_result (nw a)) \<Longrightarrow> P a le r"
    and "\<And>a le r e. int a < m \<Longrightarrow> ctx_done_before (nw a) = None \<Longrightarrow>
           retryable (do_result (nw a)) \<Longrightarrow> ctx_done_in_backoff (nw a) = Some e \<Longrightarrow> P a le r"
    and "\<And>a le r. int a < m \<Longrightarrow> ctx_done_before (nw a) = None \<Longrightarrow>
           retryable (do_result (nw a)) \<Longrightarrow> ctx_done_in_backoff (nw a) = None \<Longrightarrow>
           P (Suc a) (err_of (do_result (nw a))) (resp_of (do_result (nw a))) \<Longrightarrow> P a le r"
  shows "P a le r"
proof (induction "nat (m + 1 - int a)" arbitrary: a le r)
  case 0
  then have "\<not> int a \<le> m" by simp
  then show ?case by (rule assms(1))
next
  case (Suc k)
  have ih: "P (Suc a) le' r'" for le' r'
    by (rule Suc.hyps(1)) (use Suc.hyps(2) in simp)
  show ?case
  proof (cases rule: retry_loop_cases [where a = a and m = m and nw = nw])
    case exit
    then show ?thesis by (rule assms(1))
  next
    case (cancelled e)
    then show ?thesis by (rule assms(2))
  next
    case (return x)
    then show ?thesis by (rule assms(3))
  next
    case last
    then show ?thesis by (rule assms(4))
  next
    case (backoff_cancelled e)
    then show ?thesis by (rule assms(5))
  next
    case again
    then show ?thesis using ih by (rule assms(6))
  qed
qed

lemma retry_loop_issued_le:
  "length (issued (retry_loop nw m a le r)) \<le> nat (m + 1 - int a)"
  by (induction a le r rule: retry_loop_induct [where m = m and nw = nw])
     (simp_all add: retry_loop_eqs)

text \<open>
  An attempt that received a response below 500 is the last one: as many waits as
  attempts before it, and the response is what the loop returns, with a nil error.
\<close>

lemma retry_loop_stops:
  "i < length (issued (retry_loop nw m a le r)) \<Longrightarrow>
   issued (retry_loop nw m a le r) ! i = DoResp x \<Longrightarrow> StatusCode x < 500 \<Longrightarrow>
   Suc i = length (issued (retry_loop nw m a le r)) \<and>
   length (backoffs (retry_loop nw m a le r)) = i \<and>
   ret_resp (retry_loop nw m a le r) = Some x \<and> ret_err (retry_loop nw m a le r) = None"
proof (induction a le r arbitrary: i rule: retry_loop_induct [where m = m and nw = nw])
  case (exit a le r)
  then show ?case by (simp add: retry_loop_exit)
next
  case (cancelled a le r e)
  then show ?case by (simp add: retry_loop_cancelled)
next
  case (return a le r y)
  then show ?case by (simp add: retry_loop_return)
next
  case (last a le r)
  then show ?case by (simp add: retry_loop_last retryable_def)
next
  case (backoff_cancelled a le r e)
  then show ?case by (simp add: retry_loop_backoff_cancelled retryable_def)
next
  case (again a le r)
  let ?rest = "retry_loop nw m (Suc a) (err_of (do_result (nw a))) (resp_of (do_result (nw a)))"
  have eq: "retry_loop nw m a le r =
      did_attempt (do_result (nw a)) (did_wait (backoffDelay a) ?rest)"
    using again.hyps by (rule retry_loop_again)
  show ?case
  proof (cases i)
    case 0
    with again.prems again.hyps(3) show ?thesis by (simp add: eq retryable_def)
  next
    case (Suc j)
    with again.prems have "j < length (issued ?rest)" "issued ?rest ! j = DoResp x"
      by (simp_all add: eq)
    from again.IH [OF this \<open>StatusCode x < 500\<close>] Suc show ?thesis
      by (simp add: eq)
  qed
qed

lemma retry_loop_backoffs:
  "n < length (backoffs (retry_loop nw m a le r)) \<Longrightarrow>
   backoffs (retry_loop nw m a le r) ! n = backoffDelay (a + n)"
proof (induction a le r arbitrary: n rule: retry_loop_induct [where m = m and nw = nw])
  case (again a le r)
  then show ?case
    by (cases n) (simp_all add: retry_loop_again)
qed (simp_all add: retry_loop_exit retry_loop_cancelled retry_loop_return retry_loop_last
       retry_loop_backoff_cancelled)

lemma after_loop_no_error:
  "retryable out \<Longrightarrow> ret_err (after_loop m (err_of out) (resp_of out)) \<noteq> None"
  by (cases out) (simp_all add: retryable_def after_loop_def err_of_def resp_of_def)

text \<open>
  Once the loop body runs at all, a nil error comes with a response, which is below 500
  and was received in one of the attempts.
\<close>

lemma retry_loop_no_error:
  "int a \<le> m \<Longrightarrow> ret_err (retry_loop nw m a le r) = None \<Longrightarrow>
   \<exists>x. ret_resp (retry_loop nw m a le r) = Some x \<and> StatusCode x < 500 \<and>
       DoResp x \<in> set (issued (retry_loop nw m a le r))"
proof (induction a le r rule: retry_loop_induct [where m = m and nw = nw])
  case (last a le r)
  then show ?case
    by (simp add: retry_loop_last after_loop_no_error)
next
  case (again a le r)
  then show ?case
    by (simp add: retry_loop_again) blast
qed (simp_all add: retry_loop_exit retry_loop_cancelled retry_loop_return
       retry_loop_backoff_cancelled)


lemma DoWithRetry_3_response:
  "ret_err (DoWithRetry nw 3) = None \<Longrightarrow>
   \<exists>x. ret_resp (DoWithRetry nw 3) = Some x \<and> StatusCode x < 500 \<and>
       DoResp x \<in> set (issued (DoWithRetry nw 3))"
  using retry_loop_no_error [of 0 3 nw None None] by (simp add: DoWithRetry_def)

section \<open>Claims on the executor\<close>

text \<open>
  C1. A call of \<^verbatim>\<open>DoWithRetry\<close> with a retry count \<open>maxRetries\<close> (a count: not
  negative) makes at most \<open>maxRetries + 1\<close> calls of \<^verbatim>\<open>client.Do\<close>. When an attempt
  receives a response whose status is below 500, that attempt is the last one made:
  the number of attempts is its index plus one, only the waits before it have taken
  place, and the call returns that response with a nil error.
\<close>

theorem DoWithRetry_attempts:
  assumes "0 \<le> maxRetries"
  shows "int (length (issued (DoWithRetry nw maxRetries))) \<le> maxRetries + 1 \<and>
    (\<forall>i x. i < length (issued (DoWithRetry nw maxRetries)) \<and>
           issued (DoWithRetry nw maxRetries) ! i = DoResp x \<and> StatusCode x < 500 \<longrightarrow>
           Suc i = length (issued (DoWithRetry nw maxRetries)) \<and>
           length (backoffs (DoWithRetry nw maxRetries)) = i \<and>
           ret_resp (DoWithRetry nw maxRetries) = Some x \<and>
           ret_err (DoWithRetry nw maxRetries) = None)"
proof -
  have "length (issued (DoWithRetry nw maxRetries)) \<le> nat (maxRetries + 1)"
    using retry_loop_issued_le [of nw maxRetries 0 None None] by (simp add: DoWithRetry_def)
  with assms have "int (length (issued (DoWithRetry nw maxRetries))) \<le> maxRetries + 1"
    by linarith
  moreover have "Suc i = length (issued (DoWithRetry nw maxRetries)) \<and>
      length (backoffs (DoWithRetry nw maxRetries)) = i \<and>
      ret_resp (DoWithRetry nw maxRetries) = Some x \<and>
      ret_err (DoWithRetry nw maxRetries) = None"
    if "i < length (issued (DoWithRetry nw maxRetries))"
      and "issued (DoWithRetry nw maxRetries) ! i = DoResp x" and "StatusCode x < 500"
    for i x
    using retry_loop_stops [of i nw maxRetries 0 None None x] that
    by (simp add: DoWithRetry_def)
  ultimately show ?thesis by blast
qed

lemma run_503_then_404:
  "DoWithRetry (answering [DoResp (plain 503)] (DoResp (plain 404))) 3 =
     \<lparr>ret_resp = Some (plain 404), ret_err = None,
      issued = [DoResp (plain 503), DoResp (plain 404)], backoffs = [100000000]\<rparr>"
  by (simp add: DoWithRetry_def retry_loop.simps answering_def plain_def err_of_def resp_of_def
      did_attempt_def did_wait_def backoffDelay_def Millisecond_def Second_def word_sless_alt)

theorem DoWithRetry_attempts_witness:
  "(0::int) \<le> 3 \<and>
   (1::nat) < length (issued (DoWithRetry (answering [DoResp (plain 503)] (DoResp (plain 404))) 3)) \<and>
   issued (DoWithRetry (answering [DoResp (plain 503)] (DoResp (plain 404))) 3) ! 1
     = DoResp (plain 404) \<and>
   StatusCode (plain 404) < 500 \<and>
   int (length (issued (DoWithRetry (answering [DoResp (plain 503)] (DoResp (plain 404))) 3)))
     \<le> 3 + 1 \<and>
   length (issued (DoWithRetry (answering [DoResp (plain 503)] (DoResp (plain 404))) 3)) = 2 \<and>
   length (backoffs (DoWithRetry (answering [DoResp (plain 503)] (DoResp (plain 404))) 3)) = 1 \<and>
   ret_resp (DoWithRetry (answering [DoResp (plain 503)] (DoResp (plain 404))) 3)
     = Some (plain 404) \<and>
   ret_err (DoWithRetry (answering [DoResp (plain 503)] (DoResp (plain 404))) 3) = None"
proof -
  let ?R = "DoWithRetry (answering [DoResp (plain 503)] (DoResp (plain 404))) 3"
  have pre: "(1::nat) < length (issued ?R) \<and> issued ?R ! 1 = DoResp (plain 404) \<and>
      StatusCode (plain 404) < 500"
    by (simp add: run_503_then_404) (simp add: plain_def)
  have nonneg: "(0::int) \<le> 3" by simp
  from DoWithRetry_attempts [OF nonneg, of "answering [DoResp (plain 503)] (DoResp (plain 404))"]
  have bound: "int (length (issued ?R)) \<le> 3 + 1"
    and stop: "\<And>i x. i < length (issued ?R) \<and> issued ?R ! i = DoResp x \<and> StatusCode x < 500
        \<Longrightarrow> Suc i = length (issued ?R) \<and> length (backoffs ?R) = i \<and>
            ret_resp ?R = Some x \<and> ret_err ?R = None"
    by blast+
  from stop [OF pre] bound pre nonneg show ?thesis by simp
qed

section \<open>The backoff delay\<close>

lemma sint_word_of_int_64:
  "- (2 ^ 63) \<le> k \<Longrightarrow> k < 2 ^ 63 \<Longrightarrow> sint (word_of_int k :: 64 word) = k"
  by (simp only: sint_sbintrunc') (simp add: signed_take_bit_int_eq_self)

lemma backoffDelay_upto_36:
  assumes "n \<le> 36"
  shows "sint (backoffDelay n) = min 5000000000 (100000000 * 2 ^ n)"
proof -
  define k :: int where "k = 100000000 * 2 ^ n"
  have w: "push_bit n (1 :: 64 word) * 100 * Millisecond = word_of_int k"
    by (simp add: Millisecond_def push_bit_eq_mult k_def)
  have "(2::int) ^ n \<le> 2 ^ 36" using assms by (intro power_increasing) simp_all
  then have b1: "k < 2 ^ 63" by (simp add: k_def)
  have "0 \<le> k" by (simp add: k_def)
  then have b2: "- (2 ^ 63) \<le> k" by simp
  note b = b2 b1
  have s: "sint (word_of_int k :: 64 word) = k"
    using b by (intro sint_word_of_int_64)
  have c: "sint (5 * Second) = 5000000000"
    by (simp add: Second_def)
  have "backoffDelay n = (if 5000000000 < k then 5 * Second else word_of_int k)"
    by (simp only: backoffDelay_def Let_def w word_sless_alt s c)
  then have "sint (backoffDelay n) = (if 5000000000 < k then 5000000000 else k)"
    by (simp only: s c if_distrib [of sint] split: if_splits)
  also have "\<dots> = min 5000000000 k"
    by (simp only: min_def) auto
  finally show ?thesis
    by (simp only: k_def)
qed

lemma backoffDelay_capped: "sint (backoffDelay n) \<le> 5000000000"
proof -
  have c: "sint (5 * Second) = 5000000000"
    by (simp add: Second_def)
  show ?thesis
    by (simp add: backoffDelay_def Let_def word_sless_alt c)
qed

lemma backoffDelay_36: "sint (backoffDelay 36) = 5000000000"
  by (simp add: backoffDelay_def Millisecond_def Second_def word_sless_alt)

lemma backoffDelay_37: "sint (backoffDelay 37) = - 4702848726509551616"
  by (simp add: backoffDelay_def Millisecond_def Second_def word_sless_alt)

lemma retry_loop_all_retried:
  assumes "\<And>n. ctx_done_before (nw n) = None \<and> ctx_done_in_backoff (nw n) = None \<and>
             retryable (do_result (nw n))"
  shows "int a \<le> m \<Longrightarrow> length (backoffs (retry_loop nw m a le r)) = nat (m - int a)"
proof (induction a le r rule: retry_loop_induct [where m = m and nw = nw])
  case (return a le r x)
  with assms [of a] show ?case by (simp add: retryable_def)
next
  case (again a le r)
  then show ?case by (simp add: retry_loop_again)
qed (use assms in \<open>simp_all add: retry_loop_exit retry_loop_cancelled retry_loop_last
       retry_loop_backoff_cancelled\<close>)

text \<open>
  C2. The wait after attempt \<open>n\<close> is meant to be \<open>min (5 s) (100 ms * 2 ^ n)\<close>, a sequence
  that never decreases and never passes 5 s. The code computes the product in 64 bits and
  caps it afterwards. Up to attempt 36 the value is the one of the formula
  (\<open>backoffDelay_upto_36\<close>); at attempt 37 the product has wrapped. The theorem runs
  \<^verbatim>\<open>DoWithRetry\<close> with 38 retries against a server that answers 503 every time, the
  context never being done: there are 38 waits, the one after attempt 36 is 5 s, and the
  one after attempt 37 is a negative duration, where the formula gives 5 s.
\<close>

theorem backoff_wraps_at_attempt_37:
  "length (backoffs (DoWithRetry (answering [] (DoResp (plain 503))) 38)) = 38 \<and>
   sint (backoffs (DoWithRetry (answering [] (DoResp (plain 503))) 38) ! 36) = 5000000000 \<and>
   sint (backoffs (DoWithRetry (answering [] (DoResp (plain 503))) 38) ! 37)
     = - 4702848726509551616 \<and>
   min 5000000000 (100000000 * 2 ^ 37) = (5000000000 :: int)"
proof -
  let ?nw = "answering [] (DoResp (plain 503))"
  have "ctx_done_before (?nw n) = None \<and> ctx_done_in_backoff (?nw n) = None \<and>
      retryable (do_result (?nw n))" for n
    by (simp add: answering_def retryable_def plain_def)
  from retry_loop_all_retried [of ?nw 0 38 None None, OF this]
  have len: "length (backoffs (DoWithRetry ?nw 38)) = 38"
    by (simp add: DoWithRetry_def)
  have "backoffs (DoWithRetry ?nw 38) ! 36 = backoffDelay 36"
    using retry_loop_backoffs [of 36 ?nw 38 0 None None] len by (simp add: DoWithRetry_def)
  moreover have "backoffs (DoWithRetry ?nw 38) ! 37 = backoffDelay 37"
    using retry_loop_backoffs [of 37 ?nw 38 0 None None] len by (simp add: DoWithRetry_def)
  ultimately show ?thesis
    using len by (simp add: backoffDelay_36 backoffDelay_37)
qed

section \<open>The provider on the responses it receives\<close>

lemma run_plain:
  "c < 500 \<Longrightarrow> DoWithRetry (answering [] (DoResp (plain c))) m =
     (if 0 \<le> m then \<lparr>ret_resp = Some (plain c), ret_err = None, issued = [DoResp (plain c)],
                       backoffs = []\<rparr>
      else \<lparr>ret_resp = None, ret_err = None, issued = [], backoffs = []\<rparr>)"
  by (simp add: DoWithRetry_def retry_loop.simps answering_def plain_def err_of_def resp_of_def
      did_attempt_def after_loop_def)

lemma run_500:
  "DoWithRetry (answering [] (DoResp (plain 500))) 3 =
     \<lparr>ret_resp = Some (plain 500), ret_err = Some (FailedWithStatus 3 500),
      issued = [DoResp (plain 500), DoResp (plain 500), DoResp (plain 500), DoResp (plain 500)],
      backoffs = [100000000, 200000000, 400000000]\<rparr>"
  by (simp add: DoWithRetry_def retry_loop.simps answering_def plain_def err_of_def resp_of_def
      did_attempt_def did_wait_def backoffDelay_def Millisecond_def Second_def word_sless_alt
      after_loop_def Let_def)







text \<open>No operation of the provider meets a nil response with a nil error.\<close>

lemma Create_no_nil_dereference: "fst (Create s w resource) \<noteq> Inl NilDereference"
  using DoWithRetry_3_response [of "net w"]
  by (auto simp: Create_def Let_def parse_status_def split: sum.splits option.splits)

lemma Read_no_nil_dereference: "fst (Read s w v) \<noteq> Inl NilDereference"
  using DoWithRetry_3_response [of "net w"]
  by (auto simp: Read_def Let_def parse_status_def split: sum.splits option.splits)

lemma Update_no_nil_dereference: "fst (Update s w resource) \<noteq> Inl NilDereference"
  using DoWithRetry_3_response [of "net w"]
  by (auto simp: Update_def Let_def parse_status_def split: sum.splits option.splits)

lemma Delete_no_nil_dereference: "fst (Delete s w v) \<noteq> Some NilDereference"
  using DoWithRetry_3_response [of "net w"]
  by (auto simp: Delete_def Let_def split: option.splits)

lemma Create_201:
  "Create s (world_at t (answering [] (DoResp (plain 201)))) r =
     (Inr (buildResourceStatus device_active (At t) (At t)), [DoResp (plain 201)])"
  by (simp add: Create_def world_at_def run_plain Let_def)
     (simp add: plain_def parse_status_def)

lemma Create_400:
  "Create s (world_at t (answering [] (DoResp (plain 400)))) r =
     (Inl (BadStatus 400 []), [DoResp (plain 400)])"
  by (simp add: Create_def world_at_def run_plain Let_def)
     (simp add: plain_def)

lemma Delete_500:
  "Delete s (world_at t (answering [] (DoResp (plain 500)))) v =
     (Some (ExecuteFailed (FailedWithStatus 3 500)),
      [DoResp (plain 500), DoResp (plain 500), DoResp (plain 500), DoResp (plain 500)])"
  by (simp add: Delete_def world_at_def run_500 Let_def)

lemma Delete_plain:
  "c = 204 \<or> c = 200 \<or> c = 404 \<Longrightarrow>
   Delete s (world_at t (answering [] (DoResp (plain c)))) v = (None, [DoResp (plain c)])"
  by (auto simp: Delete_def world_at_def run_plain Let_def) (simp_all add: plain_def)




section \<open>Decimal numerals are read back\<close>

lemma digit_val_digit_char: "d < 10 \<Longrightarrow> digit_val (digit_char d) = d"
  by (simp add: digit_val_def digit_char_def)

lemma digit_char_not_minus: "d < 10 \<Longrightarrow> digit_char d \<noteq> CHR ''-''"
proof
  assume "d < 10" and "digit_char d = CHR ''-''"
  then have "of_char (digit_char d) = (of_char (CHR ''-'') :: nat)" by simp
  with \<open>d < 10\<close> show False by (simp add: digit_char_def)
qed

lemma val_dec_snoc: "val_dec (s @ [c]) = 10 * val_dec s + digit_val c"
  by (simp add: val_dec_def)

lemma val_dec_dec_nat: "val_dec (dec_nat n) = n"
proof (induction n rule: dec_nat.induct)
  case (1 n)
  show ?case
  proof (cases "n < 10")
    case True
    then show ?thesis
      by (subst dec_nat.simps) (simp add: val_dec_def digit_val_digit_char)
  next
    case False
    with "1.IH" show ?thesis
      by (subst dec_nat.simps) (simp add: val_dec_snoc digit_val_digit_char)
  qed
qed

lemma dec_nat_no_minus: "CHR ''-'' \<notin> set (dec_nat n)"
proof (induction n rule: dec_nat.induct)
  case (1 n)
  show ?case
  proof (cases "n < 10")
    case True
    then show ?thesis
      using digit_char_not_minus [of n] by (subst dec_nat.simps) auto
  next
    case False
    with "1.IH" show ?thesis
      using digit_char_not_minus [of "n mod 10"] by (subst dec_nat.simps) auto
  qed
qed

lemma dec_nat_not_Nil: "dec_nat n \<noteq> []"
  by (subst dec_nat.simps) simp

lemma parse_d_fmt_d: "parse_d (fmt_d i) = i"
proof (cases "i < 0")
  case True
  then show ?thesis by (simp add: parse_d_def fmt_d_def val_dec_dec_nat)
next
  case False
  obtain c t where ct: "dec_nat (nat i) = c # t"
    using dec_nat_not_Nil [of "nat i"] by (cases "dec_nat (nat i)") auto
  with dec_nat_no_minus [of "nat i"] have "c \<noteq> CHR ''-''" by auto
  with False ct val_dec_dec_nat [of "nat i"] show ?thesis
    by (simp add: parse_d_def fmt_d_def)
qed

lemma fmt_d_inj: "fmt_d i = fmt_d j \<longleftrightarrow> i = j"
proof
  assume "fmt_d i = fmt_d j"
  then have "parse_d (fmt_d i) = parse_d (fmt_d j)" by (rule arg_cong)
  then show "i = j" by (simp only: parse_d_fmt_d)
qed simp

lemma generateResourceID_inj: "generateResourceID t1 = generateResourceID t2 \<longleftrightarrow> t1 = t2"
  by (simp add: generateResourceID_def fmt_d_inj)

lemma generateResourceID_not_Nil: "generateResourceID t \<noteq> []"
  by (simp add: generateResourceID_def)

section \<open>The handlers and the store\<close>

lemma refuse_fields [simp]:
  "ctrl (refuse c n msg) = c" "status_code (refuse c n msg) = n"
  "reply_body (refuse c n msg) = JSONError msg"
  "provider_calls (refuse c n msg) = []" "http_calls (refuse c n msg) = []"
  by (simp_all add: refuse_def)

text \<open>The handlers leave the provider table alone.\<close>

lemma Providers_create [simp]: "Providers (ctrl (HandleCreateResource w c decoded)) = Providers c"
  by (simp add: HandleCreateResource_def Let_def split: sum.splits option.splits prod.splits)

lemma Providers_get [simp]: "Providers (ctrl (HandleGetResource w c k)) = Providers c"
  by (simp add: HandleGetResource_def Let_def split: sum.splits option.splits prod.splits)

lemma Providers_delete [simp]: "Providers (ctrl (HandleDeleteResource w c k)) = Providers c"
  by (simp add: HandleDeleteResource_def Let_def split: sum.splits option.splits prod.splits)

lemma store_ok_create: "store_ok c \<Longrightarrow> store_ok (ctrl (HandleCreateResource w c decoded))"
  unfolding store_ok_def
  by (auto simp: HandleCreateResource_def Let_def generateResourceID_not_Nil
           split: sum.splits option.splits prod.splits if_splits)

lemma store_ok_get: "store_ok c \<Longrightarrow> store_ok (ctrl (HandleGetResource w c k))"
  unfolding store_ok_def
  by (auto simp: HandleGetResource_def Let_def
           split: sum.splits option.splits prod.splits if_splits)

lemma store_ok_delete: "store_ok c \<Longrightarrow> store_ok (ctrl (HandleDeleteResource w c k))"
  unfolding store_ok_def
  by (auto simp: HandleDeleteResource_def Let_def
           split: sum.splits option.splits prod.splits if_splits)

lemma reachable_store_ok: "reachable c \<Longrightarrow> store_ok c"
proof (induction rule: reachable.induct)
  case (start url key)
  show ?case by (simp add: store_ok_def NewController_def)
qed (simp_all add: store_ok_create store_ok_get store_ok_delete)

lemma reachable_known:
  assumes "reachable c" and "ResourceDB c k = Some r"
  obtains p where "k \<noteq> []" and "Providers c (VendorType (Spec r)) = Some p"
  using reachable_store_ok [OF assms(1)] assms(2) unfolding store_ok_def by blast



section \<open>The example requests, evaluated\<close>

lemma Providers_controller0: "Providers controller0 = [''sony'' \<mapsto> sony0]"
  by (simp add: controller0_def NewController_def sony0_def)

lemma created_camera:
  "Providers c ''sony'' = Some s \<Longrightarrow>
   HandleCreateResource (world_at t (answering [] (DoResp (plain 201)))) c (Inr (camera n)) =
     (if n = [] then refuse c 400 ''name is required''
      else \<lparr>ctrl = c\<lparr>ResourceDB := (ResourceDB c)(generateResourceID t \<mapsto> stored_camera n t)\<rparr>,
            status_code = 201, reply_body = JSONResource (stored_camera n t),
            provider_calls = [CallCreate ((camera n)\<lparr>ID := generateResourceID t,
                CreatedAt := At t, UpdatedAt := At t,
                Status := zero_status\<lparr>Phase := ''Pending'',
                   Message := ''Resource creation initiated''\<rparr>\<rparr>)],
            http_calls = [DoResp (plain 201)]\<rparr>)"
  by (simp add: HandleCreateResource_def Let_def Create_201 camera_def stored_camera_def)
     (simp add: world_at_def)

lemma first_create_eq:
  "first_create =
     \<lparr>ctrl = controller0\<lparr>ResourceDB :=
         (ResourceDB controller0)(generateResourceID 1700000000000000000 \<mapsto>
            stored_camera ''cam-1'' 1700000000000000000)\<rparr>,
      status_code = 201, reply_body = JSONResource (stored_camera ''cam-1'' 1700000000000000000),
      provider_calls = [CallCreate ((camera ''cam-1'')\<lparr>ID := generateResourceID 1700000000000000000,
                CreatedAt := At 1700000000000000000, UpdatedAt := At 1700000000000000000,
                Status := zero_status\<lparr>Phase := ''Pending'',
                   Message := ''Resource creation initiated''\<rparr>\<rparr>)],
      http_calls = [DoResp (plain 201)]\<rparr>"
  unfolding first_create_def
  by (subst created_camera [where s = sony0]) (simp_all add: Providers_controller0)

lemma Providers_first_create: "Providers (ctrl first_create) = [''sony'' \<mapsto> sony0]"
  by (simp add: first_create_def Providers_controller0)

lemma reachable_first_create: "reachable (ctrl first_create)"
  unfolding first_create_def controller0_def by (intro reachable.intros)

lemma reachable_failed_create: "reachable (ctrl failed_create)"
  unfolding failed_create_def controller0_def by (intro reachable.intros)

lemma stored_camera_fields [simp]:
  "VendorID (Status (stored_camera n t)) = ''dev-1''"
  "VendorType (Spec (stored_camera n t)) = ''sony''"
  "ID (stored_camera n t) = generateResourceID t"
  by (simp_all add: stored_camera_def camera_def buildResourceStatus_def phase_of_def
        stream_metrics_def device_active_def zero_status_def)

lemma first_create_store:
  "ResourceDB (ctrl first_create) (generateResourceID 1700000000000000000) =
     Some (stored_camera ''cam-1'' 1700000000000000000)"
  by (simp add: first_create_eq)

lemma failed_create_calls:
  "provider_calls failed_create = [CallCreate (pending_camera ''cam-1'' 1700000000000000000)]"
  by (simp add: failed_create_def HandleCreateResource_def Let_def case_prod_beta
        Providers_controller0 camera_def pending_camera_def)
     (simp add: world_at_def)

lemma failed_create_eq:
  "failed_create =
     \<lparr>ctrl = controller0\<lparr>ResourceDB :=
         (ResourceDB controller0)(generateResourceID 1700000000000000000 \<mapsto>
            (pending_camera ''cam-1'' 1700000000000000000)
              \<lparr>Status := (Status (pending_camera ''cam-1'' 1700000000000000000))
                 \<lparr>Phase := ''Failed'',
                  Message := ''Vendor API error: '' @ error_text (BadStatus 400 [])\<rparr>\<rparr>)\<rparr>,
      status_code = 201,
      reply_body = JSONResource ((pending_camera ''cam-1'' 1700000000000000000)
              \<lparr>Status := (Status (pending_camera ''cam-1'' 1700000000000000000))
                 \<lparr>Phase := ''Failed'',
                  Message := ''Vendor API error: '' @ error_text (BadStatus 400 [])\<rparr>\<rparr>),
      provider_calls = [CallCreate (pending_camera ''cam-1'' 1700000000000000000)],
      http_calls = [DoResp (plain 400)]\<rparr>"
  by (simp add: failed_create_def HandleCreateResource_def Let_def Create_400
        Providers_controller0 camera_def pending_camera_def)
     (simp add: world_at_def)

section \<open>Claims on the provider\<close>






text \<open>
  C8. \<^verbatim>\<open>Update\<close> on a resource whose \<^verbatim>\<open>Status.VendorID\<close> is empty returns the error
  \<open>cannot update resource without vendor ID\<close> at once: no call of \<^verbatim>\<open>client.Do\<close> is
  made.
\<close>

theorem Update_without_vendor_id:
  "VendorID (Status resource) = [] \<Longrightarrow> Update s w resource = (Inl NoVendorID, [])"
  by (simp add: Update_def)

theorem Update_without_vendor_id_witness:
  "VendorID (Status (camera ''cam-1'')) = [] \<and>
   Update sony0 (world_at 1700000000000000002 (answering [] (DoResp (plain 200))))
     (camera ''cam-1'') = (Inl NoVendorID, [])"
proof -
  have h: "VendorID (Status (camera ''cam-1'')) = []"
    by (simp add: camera_def zero_status_def)
  from Update_without_vendor_id [OF h] h show ?thesis by simp
qed

section \<open>Claims on the controller\<close>

text \<open>
  C3 (as amended). A create answered 201 replies with the id \<open>res-\<close> followed by the
  nanosecond that \<^verbatim>\<open>generateResourceID\<close> read from the clock. Two such creates have the
  same id exactly when they read the same nanosecond.
\<close>

theorem create_ids_follow_clock:
  assumes "status_code (HandleCreateResource w1 c1 d1) = 201"
      and "status_code (HandleCreateResource w2 c2 d2) = 201"
  shows "replied_id (HandleCreateResource w1 c1 d1) = Some (generateResourceID (now_id w1)) \<and>
         replied_id (HandleCreateResource w2 c2 d2) = Some (generateResourceID (now_id w2)) \<and>
         (replied_id (HandleCreateResource w1 c1 d1) = replied_id (HandleCreateResource w2 c2 d2)
            \<longleftrightarrow> now_id w1 = now_id w2)"
proof -
  have id: "replied_id (HandleCreateResource w c d) = Some (generateResourceID (now_id w))"
    if "status_code (HandleCreateResource w c d) = 201" for w c d
    using that
    by (auto simp: HandleCreateResource_def replied_id_def Let_def
             split: sum.splits option.splits prod.splits if_splits)
  from id [OF assms(1)] id [OF assms(2)] show ?thesis
    by (simp add: generateResourceID_inj)
qed

theorem create_ids_follow_clock_witness:
  "status_code first_create = 201 \<and> status_code later_create = 201 \<and>
   replied_id first_create = Some (generateResourceID 1700000000000000000) \<and>
   replied_id later_create = Some (generateResourceID 1700000000000000001) \<and>
   replied_id first_create \<noteq> replied_id later_create"
proof -
  have h1: "status_code (HandleCreateResource
      (world_at 1700000000000000000 (answering [] (DoResp (plain 201))))
      controller0 (Inr (camera ''cam-1''))) = 201"
    using first_create_eq by (simp add: first_create_def)
  have h2: "status_code (HandleCreateResource
      (world_at 1700000000000000001 (answering [] (DoResp (plain 201))))
      (ctrl first_create) (Inr (camera ''cam-2''))) = 201"
    by (subst created_camera [where s = sony0]) (simp_all add: Providers_first_create)
  have "status_code first_create = 201 \<and> status_code later_create = 201 \<and>
      replied_id first_create = Some (generateResourceID (now_id
        (world_at 1700000000000000000 (answering [] (DoResp (plain 201)))))) \<and>
      replied_id later_create = Some (generateResourceID (now_id
        (world_at 1700000000000000001 (answering [] (DoResp (plain 201)))))) \<and>
      (replied_id first_create = replied_id later_create \<longleftrightarrow>
        now_id (world_at 1700000000000000000 (answering [] (DoResp (plain 201)))) =
        now_id (world_at 1700000000000000001 (answering [] (DoResp (plain 201)))))"
    unfolding first_create_def later_create_def
    using create_ids_follow_clock [OF h1 h2] h1 h2
    unfolding first_create_def
    by blast
  then show ?thesis
    by (simp add: world_at_def generateResourceID_inj)
qed

text \<open>
  C3 as the specification words it does not hold: two different requests that read the
  same nanosecond are both answered 201 with the same id, and the record of the second
  takes the place of the first in the store.
\<close>

theorem same_clock_same_id:
  "status_code first_create = 201 \<and> status_code second_create = 201 \<and>
   reply_body first_create = JSONResource (stored_camera ''cam-1'' 1700000000000000000) \<and>
   reply_body second_create = JSONResource (stored_camera ''cam-2'' 1700000000000000000) \<and>
   stored_camera ''cam-1'' 1700000000000000000 \<noteq> stored_camera ''cam-2'' 1700000000000000000 \<and>
   ID (stored_camera ''cam-1'' 1700000000000000000) = ID (stored_camera ''cam-2'' 1700000000000000000) \<and>
   ResourceDB (ctrl second_create) (generateResourceID 1700000000000000000)
     = Some (stored_camera ''cam-2'' 1700000000000000000)"
proof -
  have p: "Providers (ctrl first_create) ''sony'' = Some sony0"
    by (simp add: first_create_def Providers_controller0)
  have s: "second_create =
     \<lparr>ctrl = (ctrl first_create)\<lparr>ResourceDB :=
         (ResourceDB (ctrl first_create))(generateResourceID 1700000000000000000 \<mapsto>
            stored_camera ''cam-2'' 1700000000000000000)\<rparr>,
      status_code = 201, reply_body = JSONResource (stored_camera ''cam-2'' 1700000000000000000),
      provider_calls = [CallCreate ((camera ''cam-2'')\<lparr>ID := generateResourceID 1700000000000000000,
                CreatedAt := At 1700000000000000000, UpdatedAt := At 1700000000000000000,
                Status := zero_status\<lparr>Phase := ''Pending'',
                   Message := ''Resource creation initiated''\<rparr>\<rparr>)],
      http_calls = [DoResp (plain 201)]\<rparr>"
    unfolding second_create_def
    by (subst created_camera [OF p]) simp
  have d: "stored_camera ''cam-1'' 1700000000000000000 \<noteq> stored_camera ''cam-2'' 1700000000000000000"
    by (simp add: stored_camera_def camera_def)
  show ?thesis
    by (simp add: s d) (simp add: first_create_eq stored_camera_def)
qed

text \<open>
  C4. Take a \<^verbatim>\<open>POST /resources\<close> whose body decodes to a resource with a name, a type
  and a vendor type that has a provider, and let \<open>resource\<close> be that resource as the
  handler prepares it (generated id, time stamps, phase \<open>Pending\<close>). When the provider's
  \<^verbatim>\<open>Create\<close> on \<open>resource\<close> returns an error, the handler has called \<^verbatim>\<open>Create\<close> on it
  and the request is answered 201, not 500: the record is stored under its id with phase
  \<open>Failed\<close> and the message \<open>Vendor API error: \<close> followed by the text of the error,
  and the reply carries that record.
\<close>

theorem failed_create_is_persisted:
  assumes "Name r0 \<noteq> []" and "Type r0 \<noteq> []" and "VendorType (Spec r0) \<noteq> []"
      and "Providers c (VendorType (Spec r0)) = Some p"
      and "resource = r0
             \<lparr>ID := generateResourceID (now_id w),
              CreatedAt := now_created w,
              UpdatedAt := now_updated w,
              Status := (Status r0)
                \<lparr>Phase := ''Pending'', Message := ''Resource creation initiated''\<rparr>\<rparr>"
      and "fst (Create p w resource) = Inl e"
  shows "provider_calls (HandleCreateResource w c (Inr r0)) = [CallCreate resource] \<and>
     status_code (HandleCreateResource w c (Inr r0)) = 201 \<and>
     reply_body (HandleCreateResource w c (Inr r0)) =
       JSONResource (resource\<lparr>Status := (Status resource)
          \<lparr>Phase := ''Failed'', Message := ''Vendor API error: '' @ error_text e\<rparr>\<rparr>) \<and>
     ResourceDB (ctrl (HandleCreateResource w c (Inr r0))) (generateResourceID (now_id w)) =
       Some (resource\<lparr>Status := (Status resource)
          \<lparr>Phase := ''Failed'', Message := ''Vendor API error: '' @ error_text e\<rparr>\<rparr>)"
proof -
  from assms(6) obtain http where cr: "Create p w resource = (Inl e, http)"
    by (cases "Create p w resource") simp
  from assms(1-4) cr show ?thesis
    unfolding assms(5)
    by (simp add: HandleCreateResource_def Let_def)
qed

theorem failed_create_is_persisted_witness:
  "Name (camera ''cam-1'') \<noteq> [] \<and> Type (camera ''cam-1'') \<noteq> [] \<and>
   VendorType (Spec (camera ''cam-1'')) \<noteq> [] \<and>
   Providers controller0 (VendorType (Spec (camera ''cam-1''))) = Some sony0 \<and>
   fst (Create sony0 (world_at 1700000000000000000 (answering [] (DoResp (plain 400))))
          (pending_camera ''cam-1'' 1700000000000000000)) = Inl (BadStatus 400 []) \<and>
   provider_calls failed_create = [CallCreate (pending_camera ''cam-1'' 1700000000000000000)] \<and>
   status_code failed_create = 201 \<and>
   reply_body failed_create =
     JSONResource ((pending_camera ''cam-1'' 1700000000000000000)
       \<lparr>Status := (Status (pending_camera ''cam-1'' 1700000000000000000))
          \<lparr>Phase := ''Failed'',
           Message := ''Vendor API error: '' @ error_text (BadStatus 400 [])\<rparr>\<rparr>) \<and>
   ResourceDB (ctrl failed_create) (generateResourceID 1700000000000000000) =
     Some ((pending_camera ''cam-1'' 1700000000000000000)
       \<lparr>Status := (Status (pending_camera ''cam-1'' 1700000000000000000))
          \<lparr>Phase := ''Failed'',
           Message := ''Vendor API error: '' @ error_text (BadStatus 400 [])\<rparr>\<rparr>)"
proof -
  let ?w = "world_at 1700000000000000000 (answering [] (DoResp (plain 400)))"
  have h1: "Name (camera ''cam-1'') \<noteq> []" and h2: "Type (camera ''cam-1'') \<noteq> []"
    and h3: "VendorType (Spec (camera ''cam-1'')) \<noteq> []"
    by (simp_all add: camera_def)
  have h4: "Providers controller0 (VendorType (Spec (camera ''cam-1''))) = Some sony0"
    by (simp add: Providers_controller0 camera_def)
  have h5: "pending_camera ''cam-1'' 1700000000000000000 = (camera ''cam-1'')
             \<lparr>ID := generateResourceID (now_id ?w),
              CreatedAt := now_created ?w,
              UpdatedAt := now_updated ?w,
              Status := (Status (camera ''cam-1''))
                \<lparr>Phase := ''Pending'', Message := ''Resource creation initiated''\<rparr>\<rparr>"
    by (simp add: pending_camera_def camera_def world_at_def)
  have h6: "fst (Create sony0 ?w (pending_camera ''cam-1'' 1700000000000000000))
      = Inl (BadStatus 400 [])"
    by (simp add: Create_400)
  have n: "now_id ?w = 1700000000000000000"
    by (simp add: world_at_def)
  from failed_create_is_persisted [OF h1 h2 h3 h4 h5 h6] h1 h2 h3 h4 h6 show ?thesis
    by (simp only: failed_create_def n) simp
qed

text \<open>
  C5. A \<^verbatim>\<open>DELETE /resources/{id}\<close> for a stored record with a vendor id calls the
  provider's \<^verbatim>\<open>Delete\<close>. When that call returns an error, the answer is 500 and the
  controller is unchanged, so that a later \<^verbatim>\<open>GET\<close> of the id is answered 200. The answer
  is 204 only when the call returned nil, and then the record is gone from the store.
\<close>

theorem failed_vendor_delete_keeps_record:
  assumes "reachable c" and "ResourceDB c resourceID = Some r" and "VendorID (Status r) \<noteq> []"
  shows "\<exists>p. Providers c (VendorType (Spec r)) = Some p \<and>
     provider_calls (HandleDeleteResource w c resourceID) = [CallDelete (VendorID (Status r))] \<and>
     (fst (Delete p w (VendorID (Status r))) \<noteq> None \<longrightarrow>
        status_code (HandleDeleteResource w c resourceID) = 500 \<and>
        ctrl (HandleDeleteResource w c resourceID) = c \<and>
        (\<forall>w'. status_code (HandleGetResource w' (ctrl (HandleDeleteResource w c resourceID))
                 resourceID) = 200)) \<and>
     (status_code (HandleDeleteResource w c resourceID) = 204 \<longrightarrow>
        fst (Delete p w (VendorID (Status r))) = None \<and>
        ResourceDB (ctrl (HandleDeleteResource w c resourceID)) = (ResourceDB c)(resourceID := None))"
proof -
  from assms(1,2) obtain p where k: "resourceID \<noteq> []"
      and p: "Providers c (VendorType (Spec r)) = Some p"
    by (rule reachable_known)
  obtain failure http where d: "Delete p w (VendorID (Status r)) = (failure, http)"
    by (cases "Delete p w (VendorID (Status r))")
  have get: "status_code (HandleGetResource w' c resourceID) = 200" for w'
    using k p assms(2)
    by (simp add: HandleGetResource_def Let_def case_prod_beta split: sum.splits)
  show ?thesis
  proof (cases failure)
    case None
    with k p d assms(2,3) show ?thesis
      by (simp add: HandleDeleteResource_def)
  next
    case (Some e)
    with k p d assms(2,3) get show ?thesis
      by (simp add: HandleDeleteResource_def)
  qed
qed

theorem failed_vendor_delete_keeps_record_witness:
  "reachable (ctrl first_create) \<and>
   ResourceDB (ctrl first_create) (generateResourceID 1700000000000000000)
     = Some (stored_camera ''cam-1'' 1700000000000000000) \<and>
   VendorID (Status (stored_camera ''cam-1'' 1700000000000000000)) \<noteq> [] \<and>
   fst (Delete sony0 (world_at 1700000000000000002 (answering [] (DoResp (plain 500))))
         (VendorID (Status (stored_camera ''cam-1'' 1700000000000000000)))) \<noteq> None \<and>
   status_code (HandleDeleteResource
       (world_at 1700000000000000002 (answering [] (DoResp (plain 500))))
       (ctrl first_create) (generateResourceID 1700000000000000000)) = 500 \<and>
   ctrl (HandleDeleteResource
       (world_at 1700000000000000002 (answering [] (DoResp (plain 500))))
       (ctrl first_create) (generateResourceID 1700000000000000000)) = ctrl first_create \<and>
   status_code (HandleGetResource
       (world_at 1700000000000000003 (answering [] (DoResp (plain 200))))
       (ctrl (HandleDeleteResource
          (world_at 1700000000000000002 (answering [] (DoResp (plain 500))))
          (ctrl first_create) (generateResourceID 1700000000000000000)))
       (generateResourceID 1700000000000000000)) = 200 \<and>
   status_code (HandleDeleteResource
       (world_at 1700000000000000004 (answering [] (DoResp (plain 204))))
       (ctrl first_create) (generateResourceID 1700000000000000000)) = 204 \<and>
   fst (Delete sony0 (world_at 1700000000000000004 (answering [] (DoResp (plain 204))))
         (VendorID (Status (stored_camera ''cam-1'' 1700000000000000000)))) = None \<and>
   ResourceDB (ctrl (HandleDeleteResource
       (world_at 1700000000000000004 (answering [] (DoResp (plain 204))))
       (ctrl first_create) (generateResourceID 1700000000000000000)))
     (generateResourceID 1700000000000000000) = None"
proof -
  let ?w = "world_at 1700000000000000002 (answering [] (DoResp (plain 500)))"
  let ?v = "world_at 1700000000000000004 (answering [] (DoResp (plain 204)))"
  let ?k = "generateResourceID 1700000000000000000"
  let ?r = "stored_camera ''cam-1'' 1700000000000000000"
  have h3: "VendorID (Status ?r) \<noteq> []" by simp
  have f: "fst (Delete sony0 ?w (VendorID (Status ?r))) \<noteq> None"
    by (simp add: Delete_500)
  from failed_vendor_delete_keeps_record [OF reachable_first_create first_create_store h3, of ?w]
  obtain p where p: "Providers (ctrl first_create) (VendorType (Spec ?r)) = Some p"
    and fails: "fst (Delete p ?w (VendorID (Status ?r))) \<noteq> None \<longrightarrow>
        status_code (HandleDeleteResource ?w (ctrl first_create) ?k) = 500 \<and>
        ctrl (HandleDeleteResource ?w (ctrl first_create) ?k) = ctrl first_create \<and>
        (\<forall>w'. status_code (HandleGetResource w'
             (ctrl (HandleDeleteResource ?w (ctrl first_create) ?k)) ?k) = 200)"
    by blast
  from p have "p = sony0" by (simp add: Providers_first_create)
  with fails f have kept: "status_code (HandleDeleteResource ?w (ctrl first_create) ?k) = 500"
      "ctrl (HandleDeleteResource ?w (ctrl first_create) ?k) = ctrl first_create"
      "status_code (HandleGetResource w'
             (ctrl (HandleDeleteResource ?w (ctrl first_create) ?k)) ?k) = 200" for w'
    by blast+
  have s: "status_code (HandleDeleteResource ?v (ctrl first_create) ?k) = 204"
    by (simp add: HandleDeleteResource_def generateResourceID_not_Nil first_create_store
          Providers_first_create Delete_plain)
  from failed_vendor_delete_keeps_record [OF reachable_first_create first_create_store h3, of ?v]
  obtain q where q: "Providers (ctrl first_create) (VendorType (Spec ?r)) = Some q"
    and removed: "status_code (HandleDeleteResource ?v (ctrl first_create) ?k) = 204 \<longrightarrow>
        fst (Delete q ?v (VendorID (Status ?r))) = None \<and>
        ResourceDB (ctrl (HandleDeleteResource ?v (ctrl first_create) ?k)) =
          (ResourceDB (ctrl first_create))(?k := None)"
    by blast
  from q have "q = sony0" by (simp add: Providers_first_create)
  with removed s have gone: "fst (Delete sony0 ?v (VendorID (Status ?r))) = None"
      "ResourceDB (ctrl (HandleDeleteResource ?v (ctrl first_create) ?k)) ?k = None"
    by simp_all
  from kept(1) kept(2)
    kept(3) [of "world_at 1700000000000000003 (answering [] (DoResp (plain 200)))"]
    f reachable_first_create first_create_store h3 s gone
  show ?thesis by simp
qed

text \<open>
  C9. A \<^verbatim>\<open>DELETE /resources/{id}\<close> for a stored record whose vendor id is empty makes no
  call of the provider and no HTTP call, removes the record from the store and answers
  204 with no body.
\<close>

theorem delete_without_vendor_id:
  assumes "reachable c" and "ResourceDB c resourceID = Some r" and "VendorID (Status r) = []"
  shows "provider_calls (HandleDeleteResource w c resourceID) = [] \<and>
     http_calls (HandleDeleteResource w c resourceID) = [] \<and>
     status_code (HandleDeleteResource w c resourceID) = 204 \<and>
     reply_body (HandleDeleteResource w c resourceID) = NoBody \<and>
     ResourceDB (ctrl (HandleDeleteResource w c resourceID)) = (ResourceDB c)(resourceID := None)"
proof -
  from assms(1,2) obtain p where "resourceID \<noteq> []"
      and "Providers c (VendorType (Spec r)) = Some p"
    by (rule reachable_known)
  with assms(2,3) show ?thesis
    by (simp add: HandleDeleteResource_def)
qed

theorem delete_without_vendor_id_witness:
  "reachable (ctrl failed_create) \<and>
   ResourceDB (ctrl failed_create) (generateResourceID 1700000000000000000) =
     Some ((pending_camera ''cam-1'' 1700000000000000000)
              \<lparr>Status := (Status (pending_camera ''cam-1'' 1700000000000000000))
                 \<lparr>Phase := ''Failed'',
                  Message := ''Vendor API error: '' @ error_text (BadStatus 400 [])\<rparr>\<rparr>) \<and>
   provider_calls (HandleDeleteResource
       (world_at 1700000000000000002 (answering [] (DoResp (plain 500))))
       (ctrl failed_create) (generateResourceID 1700000000000000000)) = [] \<and>
   status_code (HandleDeleteResource
       (world_at 1700000000000000002 (answering [] (DoResp (plain 500))))
       (ctrl failed_create) (generateResourceID 1700000000000000000)) = 204 \<and>
   ResourceDB (ctrl (HandleDeleteResource
       (world_at 1700000000000000002 (answering [] (DoResp (plain 500))))
       (ctrl failed_create) (generateResourceID 1700000000000000000)))
     (generateResourceID 1700000000000000000) = None"
proof -
  let ?r = "(pending_camera ''cam-1'' 1700000000000000000)
              \<lparr>Status := (Status (pending_camera ''cam-1'' 1700000000000000000))
                 \<lparr>Phase := ''Failed'',
                  Message := ''Vendor API error: '' @ error_text (BadStatus 400 [])\<rparr>\<rparr>"
  have h2: "ResourceDB (ctrl failed_create) (generateResourceID 1700000000000000000) = Some ?r"
    by (simp add: failed_create_eq)
  have h3: "VendorID (Status ?r) = []"
    by (simp add: pending_camera_def camera_def zero_status_def)
  from delete_without_vendor_id [OF reachable_failed_create h2 h3] reachable_failed_create h2
  show ?thesis by simp
qed

end
